theory Spec2Isabelle
  imports Main
begin

section \<open>The persisted-retry contracts (lib/persistedretry/interfaces.go)\<close>

text \<open>
  The file declares three Go interface types and nothing else:
  \<^verbatim>\<open>
  type Task interface{}
  type Store interface {
      GetFailed() ([]Task, error)
      GetPending() ([]Task, error)
      MarkPending(Task) error
      MarkFailed(Task) error
      MarkDone(Task) error
      Close() error
  }
  type Executor interface {
      Exec(Task) error
  }
  \<close>
  An interface type is its method set: the list of method signatures it requires, in
  declaration order. A signature is a name, the parameter types and the result types.
  Only three types occur in the signatures: \<open>Task\<close>, the predeclared \<open>error\<close> and
  slices.
\<close>

datatype gotype = TyTask | TyError | TySlice gotype

record msig =
  mname :: string
  params :: "gotype list"
  results :: "gotype list"

type_synonym interface = "msig list"

definition Task :: interface where
  "Task = []"

definition Store :: interface where
  "Store =
    [\<lparr>mname = ''GetFailed'', params = [], results = [TySlice TyTask, TyError]\<rparr>,
     \<lparr>mname = ''GetPending'', params = [], results = [TySlice TyTask, TyError]\<rparr>,
     \<lparr>mname = ''MarkPending'', params = [TyTask], results = [TyError]\<rparr>,
     \<lparr>mname = ''MarkFailed'', params = [TyTask], results = [TyError]\<rparr>,
     \<lparr>mname = ''MarkDone'', params = [TyTask], results = [TyError]\<rparr>,
     \<lparr>mname = ''Close'', params = [], results = [TyError]\<rparr>]"

definition Executor :: interface where
  "Executor = [\<lparr>mname = ''Exec'', params = [TyTask], results = [TyError]\<rparr>]"

text \<open>
  Go's rule of interface satisfaction: a concrete type, given by its own method set
  \<open>ms\<close>, implements an interface when every method the interface requires is among
  its methods with the same signature. A value is usable as a \<open>Task\<close> exactly when
  its type implements \<open>Task\<close>.
\<close>

definition implements :: "msig list \<Rightarrow> interface \<Rightarrow> bool" where
  "implements ms iface = list_all (\<lambda>m. m \<in> set ms) iface"

definition has_method :: "msig list \<Rightarrow> string \<Rightarrow> bool" where
  "has_method ms n = (n \<in> set (map mname ms))"

definition lookup_method :: "interface \<Rightarrow> string \<Rightarrow> msig option" where
  "lookup_method iface n = find (\<lambda>m. mname m = n) iface"

text \<open>The operations of an interface whose only result is an \<open>error\<close>.\<close>

definition error_only :: "interface \<Rightarrow> string list" where
  "error_only iface = map mname (filter (\<lambda>m. results m = [TyError]) iface)"

section \<open>The agent's bootstrap (agent/cmd/cmd.go)\<close>

subsection \<open>Flags, the outside world, effects and exits\<close>

text \<open>
  \<open>Flags\<close> is the struct of the source. Go's \<open>int\<close> is modelled by \<open>int\<close>: the
  ports are only compared with zero and passed on.
\<close>

type_synonym error = string

record Flags =
  PeerIP :: string
  PeerPort :: int
  AgentServerPort :: int
  AgentRegistryPort :: int
  ConfigFile :: string
  Zone :: string
  KrakenCluster :: string
  SecretsFile :: string

text \<open>
  \<open>Run\<close> calls into packages that are not part of these sources (\<open>configutil\<close>,
  \<open>metrics\<close>, \<open>netutil\<close>, \<open>core\<close>, \<open>store\<close>, \<open>networkevent\<close>, \<open>scheduler\<close>, \<open>nginx\<close>,
  \<open>os\<close>, and the \<open>Build\<close> methods of the configuration). They are parameters of the
  model: a \<open>world\<close> says what each of these calls returns. The configuration type
  \<open>Config\<close> is a type parameter \<open>'c\<close>; \<open>zero_config\<close> is the zero value that
  \<open>var config Config\<close> declares. \<open>configutil.Load(file, &config)\<close> returns an error
  or the configuration with the file's content loaded into it. The objects the
  constructors build (\<open>stats\<close>, \<open>pctx\<close>, \<open>cads\<close>, ...) are only handed on to later
  constructors; the model keeps, for each constructor, whether it returns an error.
\<close>

record 'c world =
  zero_config :: 'c
  configutil_Load :: "string \<Rightarrow> 'c \<Rightarrow> error + 'c"
  metrics_New :: "'c \<Rightarrow> string \<Rightarrow> error option"
  netutil_GetLocalIP :: "error + string"
  core_NewPeerContext :: "'c \<Rightarrow> string \<Rightarrow> string \<Rightarrow> string \<Rightarrow> int \<Rightarrow> error option"
  store_NewCADownloadStore :: "'c \<Rightarrow> error option"
  networkevent_NewProducer :: "'c \<Rightarrow> error option"
  Tracker_Build :: "'c \<Rightarrow> error option"
  TLS_BuildClient :: "'c \<Rightarrow> error option"
  scheduler_NewAgentScheduler :: "'c \<Rightarrow> error option"
  BuildIndex_Build :: "'c \<Rightarrow> error option"
  Registry_Build :: "'c \<Rightarrow> error option"
  os_Remove :: "string \<Rightarrow> error option"
  os_IsNotExist :: "error \<Rightarrow> bool"
  nginx_Run :: "'c \<Rightarrow> int \<Rightarrow> error option"

text \<open>
  The fallible construction steps of \<open>Run\<close>, in the order of the source, and the
  goroutines it starts.
\<close>

datatype step =
    LoadFile string
  | Metrics
  | LocalIP
  | PeerContext
  | LocalStore
  | NetworkEvents
  | Trackers
  | ClientTLS
  | Scheduler
  | BuildIndex
  | Registry

datatype goroutine =
    EmitVersion
  | TrackersMonitor
  | AgentServerListen int
  | RegistryListen
  | Heartbeat

text \<open>
  The effects of \<open>Run\<close>, in program order. \<open>Call s r\<close> is a construction step with what
  it returned (\<open>None\<close> is Go's nil error). \<open>ConfigureLogger\<close> carries the configuration
  it is given, which is the one every later step reads.
\<close>

datatype 'c event =
    Call step "error option"
  | ConfigureLogger 'c
  | Go goroutine
  | NewClusterClient
  | NewReadOnlyTransferer
  | NewAgentServer
  | Info string
  | Remove string "error option"
  | Warn string
  | NginxRun int "error option"

text \<open>
  How \<open>Run\<close> can end: \<open>panic(v)\<close> with a string or an error value, a fatal log
  (\<open>log.Fatal\<close> and \<open>log.Fatalf\<close> log the message and exit the process), or a normal
  return.
\<close>

datatype panic_value = PanicString string | PanicError error

datatype exit = Panic panic_value | Fatal string | Returned

type_synonym 'c run = "'c event list \<times> exit"

subsection \<open>Sequencing\<close>

text \<open>
  \<open>emit e k\<close> performs the effect \<open>e\<close> and goes on with \<open>k\<close>. \<open>call s r abort k\<close> is the
  source's pattern
  \<^verbatim>\<open>x, err := step(...); if err != nil { abort(err) }\<close>: the step is performed; when
  it returned an error the run ends there with \<open>abort err\<close>, otherwise it goes on with
  \<open>k\<close>. \<open>call_val\<close> is the same for a step whose value the rest of \<open>Run\<close> reads.
\<close>

definition emit :: "'c event \<Rightarrow> 'c run \<Rightarrow> 'c run" where
  "emit e k = (e # fst k, snd k)"

definition emit_all :: "'c event list \<Rightarrow> 'c run \<Rightarrow> 'c run" where
  "emit_all es k = (es @ fst k, snd k)"

definition call :: "step \<Rightarrow> error option \<Rightarrow> (error \<Rightarrow> exit) \<Rightarrow> 'c run \<Rightarrow> 'c run" where
  "call s r abort k =
    (case r of
       Some err \<Rightarrow> ([Call s (Some err)], abort err)
     | None \<Rightarrow> emit (Call s None) k)"

definition call_val :: "step \<Rightarrow> error + 'a \<Rightarrow> (error \<Rightarrow> exit) \<Rightarrow> ('a \<Rightarrow> 'c run) \<Rightarrow> 'c run" where
  "call_val s r abort k =
    (case r of
       Inl err \<Rightarrow> ([Call s (Some err)], abort err)
     | Inr v \<Rightarrow> emit (Call s None) (k v))"

text \<open>
  \<open>panic(err)\<close>, and \<open>log.Fatalf(format, err)\<close> for a format that ends in \<open>%s\<close> (every
  format of \<open>Run\<close> does; \<open>fmt\<close> is the format without its \<open>%s\<close>). \<open>log.Fatal(err)\<close>
  prints a nil error as \<open><nil>\<close>.
\<close>

definition panic_err :: "error \<Rightarrow> exit" where
  "panic_err err = Panic (PanicError err)"

definition fatalf :: "string \<Rightarrow> error \<Rightarrow> exit" where
  "fatalf fmt err = Fatal (fmt @ err)"

definition fatal :: "error option \<Rightarrow> exit" where
  "fatal r = Fatal (case r of None \<Rightarrow> ''<nil>'' | Some err \<Rightarrow> err)"

subsection \<open>Run\<close>

text \<open>
  The loop that wipes the old nginx logs (lines 177 to 184): each file is removed, and
  a warning is logged when the removal failed with an error other than "does not
  exist".
\<close>

fun wipe_logs :: "'c world \<Rightarrow> string list \<Rightarrow> 'c event list" where
  "wipe_logs w [] = []"
| "wipe_logs w (name # names) =
    (case os_Remove w name of
       None \<Rightarrow> [Remove name None]
     | Some err \<Rightarrow>
         if \<not> os_IsNotExist w err
         then [Remove name (Some err), Warn ''Could not remove old root-owned nginx log: %s'']
         else [Remove name (Some err)])
    @ wipe_logs w names"

text \<open>
  Lines 114 to 192: from the peer context to nginx. \<open>flags\<close> is the flags after the
  local IP has been filled in. The run is the one of the main goroutine: its effects in
  program order and the exit it takes. The two servers started as goroutines (lines
  164 to 171) call \<open>log.Fatal\<close> themselves when \<open>ListenAndServe\<close> returns, which ends
  the process from outside the main goroutine, at whatever point it has reached by
  then; that race is not part of the model, and nothing below says which of the three
  fatal logs of lines 165, 170 and 186 ends a process whose construction succeeded.
  The last statement of the main goroutine is \<open>log.Fatal(nginx.Run(...))\<close>.
\<close>

definition Run_components :: "'c world \<Rightarrow> Flags \<Rightarrow> 'c \<Rightarrow> 'c run" where
  "Run_components w flags config =
    call PeerContext
      (core_NewPeerContext w config (Zone flags) (KrakenCluster flags) (PeerIP flags)
         (PeerPort flags))
      (fatalf ''Failed to create peer context: '')
   (call LocalStore (store_NewCADownloadStore w config)
      (fatalf ''Failed to create local store: '')
   (call NetworkEvents (networkevent_NewProducer w config)
      (fatalf ''Failed to create network event producer: '')
   (call Trackers (Tracker_Build w config)
      (fatalf ''Error building tracker upstream: '')
   (emit (Go TrackersMonitor)
   (call ClientTLS (TLS_BuildClient w config)
      (fatalf ''Error building client tls config: '')
   (call Scheduler (scheduler_NewAgentScheduler w config)
      (fatalf ''Error creating scheduler: '')
   (call BuildIndex (BuildIndex_Build w config)
      (fatalf ''Error building build-index upstream: '')
   (emit NewClusterClient
   (emit NewReadOnlyTransferer
   (call Registry (Registry_Build w config)
      (fatalf ''Failed to init registry: '')
   (emit NewAgentServer
   (emit (Info ''Starting agent server on %s'')
   (emit (Go (AgentServerListen (AgentServerPort flags)))
   (emit (Info ''Starting registry...'')
   (emit (Go RegistryListen)
   (emit (Go Heartbeat)
   (emit_all
      (wipe_logs w
         [''/var/log/kraken/kraken-agent/nginx-access.log'',
          ''/var/log/kraken/kraken-agent/nginx-error.log''])
      ([NginxRun (AgentRegistryPort flags) (nginx_Run w config (AgentRegistryPort flags))],
       fatal (nginx_Run w config (AgentRegistryPort flags))))))))))))))))))))"

text \<open>
  Lines 95 to 112: the logger, the metrics, and the local IP when no peer IP was given
  (\<open>flags.PeerIP = localIP\<close> updates the flags). The deferred \<open>zlog.Sync()\<close> and
  \<open>closer.Close()\<close> would run when \<open>Run\<close> returns or panics; from line 95 on \<open>Run\<close>
  only ever ends in a fatal log, which exits the process without running them.
\<close>

definition Run_configured :: "'c world \<Rightarrow> Flags \<Rightarrow> 'c \<Rightarrow> 'c run" where
  "Run_configured w flags config =
    emit (ConfigureLogger config)
   (call Metrics (metrics_New w config (KrakenCluster flags))
      (fatalf ''Failed to init metrics: '')
   (emit (Go EmitVersion)
   (if PeerIP flags = '''' then
      call_val LocalIP (netutil_GetLocalIP w) (fatalf ''Error getting local ip: '')
        (\<lambda>localIP. Run_components w (flags\<lparr>PeerIP := localIP\<rparr>) config)
    else Run_components w flags config)))"

text \<open>Lines 75 to 93: the port checks, then the configuration and the secrets.\<close>

definition Run :: "'c world \<Rightarrow> Flags \<Rightarrow> 'c run" where
  "Run w flags =
    (if PeerPort flags = 0 then
       ([], Panic (PanicString ''must specify non-zero peer port''))
     else if AgentServerPort flags = 0 then
       ([], Panic (PanicString ''must specify non-zero agent server port''))
     else if AgentRegistryPort flags = 0 then
       ([], Panic (PanicString ''must specify non-zero agent registry port''))
     else
       call_val (LoadFile (ConfigFile flags))
         (configutil_Load w (ConfigFile flags) (zero_config w)) panic_err
         (\<lambda>config.
            if SecretsFile flags \<noteq> '''' then
              call_val (LoadFile (SecretsFile flags))
                (configutil_Load w (SecretsFile flags) config) panic_err
                (\<lambda>config. Run_configured w flags config)
            else Run_configured w flags config))"

text \<open>The files a run loaded, in order, and the configurations the logger was given.\<close>

fun loads :: "'c event list \<Rightarrow> string list" where
  "loads [] = []"
| "loads (Call (LoadFile f) r # es) = f # loads es"
| "loads (e # es) = loads es"

fun configs :: "'c event list \<Rightarrow> 'c list" where
  "configs [] = []"
| "configs (ConfigureLogger c # es) = c # configs es"
| "configs (e # es) = configs es"

text \<open>
  A concrete world to run the model in. A configuration is the list of the files
  loaded into it so far; loading \<open>missing.yaml\<close> fails; every constructor succeeds
  but the registry's, which fails when the secrets were not loaded.
\<close>

definition demo_world :: "string list world" where
  "demo_world =
    \<lparr>zero_config = [],
     configutil_Load =
       (\<lambda>f c. if f = ''missing.yaml'' then Inl ''no such file'' else Inr (c @ [f])),
     metrics_New = (\<lambda>c k. None),
     netutil_GetLocalIP = Inr ''10.0.0.7'',
     core_NewPeerContext = (\<lambda>c z k ip port. None),
     store_NewCADownloadStore = (\<lambda>c. None),
     networkevent_NewProducer = (\<lambda>c. None),
     Tracker_Build = (\<lambda>c. None),
     TLS_BuildClient = (\<lambda>c. None),
     scheduler_NewAgentScheduler = (\<lambda>c. None),
     BuildIndex_Build = (\<lambda>c. None),
     Registry_Build =
       (\<lambda>c. if ''secrets.yaml'' \<in> set c then None else Some ''no credentials''),
     os_Remove = (\<lambda>name. Some ''no such file or directory''),
     os_IsNotExist = (\<lambda>err. err = ''no such file or directory''),
     nginx_Run = (\<lambda>c port. Some ''nginx exited'')\<rparr>"

definition demo_flags :: Flags where
  "demo_flags =
    \<lparr>PeerIP = '''', PeerPort = 16001, AgentServerPort = 16002, AgentRegistryPort = 16000,
     ConfigFile = ''agent.yaml'', Zone = ''zone1'', KrakenCluster = ''prod01-zone1'',
     SecretsFile = ''secrets.yaml''\<rparr>"

subsection \<open>Predicates on runs\<close>

text \<open>
  \<open>abort_ok r\<close>: the run did not return, and a construction step that returned an
  error is the last effect of the run, which ended in a panic with that error or in a
  fatal log whose message ends with it. \<open>is_fatal\<close>: the exit is a fatal log.
\<close>

definition abort_ok :: "'c run \<Rightarrow> bool" where
  "abort_ok r =
    (snd r \<noteq> Returned \<and>
     (\<forall>s err. Call s (Some err) \<in> set (fst r) \<longrightarrow>
        last (fst r) = Call s (Some err) \<and>
        (snd r = Panic (PanicError err) \<or> (\<exists>fmt. snd r = Fatal (fmt @ err)))))"

definition is_fatal :: "exit \<Rightarrow> bool" where
  "is_fatal x = (case x of Fatal m \<Rightarrow> True | _ \<Rightarrow> False)"

text \<open>
  \<open>ends_at r s err x\<close>: the run \<open>r\<close> ended with exit \<open>x\<close>, and its last effect is the
  construction step \<open>s\<close> returning the error \<open>err\<close>.
\<close>

definition ends_at :: "'c run \<Rightarrow> step \<Rightarrow> error \<Rightarrow> exit \<Rightarrow> bool" where
  "ends_at r s err x = (snd r = x \<and> fst r \<noteq> [] \<and> last (fst r) = Call s (Some err))"

subsection \<open>heartbeat\<close>

text \<open>
  \<^verbatim>\<open>
  func heartbeat(stats tally.Scope) {
      for {
          stats.Counter("heartbeat").Inc(1)
          time.Sleep(10 * time.Second)
      }
  }
  \<close>
  The state the loop acts on: the counters of the metrics scope, by name, and the time
  the goroutine has slept so far, in nanoseconds (the unit of \<open>time.Duration\<close>).
  \<open>heartbeat_body\<close> is one iteration: the increment, then the sleep. The loop has no
  condition, no \<open>break\<close> and no \<open>return\<close>: it may run forever, so it is run on fuel, one
  unit per iteration. \<open>heartbeat fuel s\<close> is where the loop started in \<open>s\<close> stands when
  the fuel is used up: \<open>Running s'\<close> when it is still inside the loop, in state \<open>s'\<close>,
  and \<open>Exited s'\<close> when it has left the loop. An iteration is followed by the next one
  whatever the state is.
\<close>

record hb_state =
  counters :: "string \<Rightarrow> int"
  slept :: nat

definition time_Second :: nat where
  "time_Second = 1000000000"

definition heartbeat_body :: "hb_state \<Rightarrow> hb_state" where
  "heartbeat_body s =
     s\<lparr>counters := (counters s)(''heartbeat'' := counters s ''heartbeat'' + 1),
       slept := slept s + 10 * time_Second\<rparr>"

datatype 'a loop = Running 'a | Exited 'a

fun heartbeat :: "nat \<Rightarrow> hb_state \<Rightarrow> hb_state loop" where
  "heartbeat 0 s = Running s"
| "heartbeat (Suc fuel) s = heartbeat fuel (heartbeat_body s)"

section \<open>The reference Store and the Retry Manager\<close>

text \<open>
  The sources hold the Store and Executor contracts only: no Store implementation and
  no Retry Manager. The definitions of this section are written from the spec's
  sections 3, 4.2, 4.4 and 5.
\<close>

subsection \<open>Tasks and the Store\<close>

text \<open>
  Modelled from the spec: the Task record (section 3). The sources declare \<open>Task\<close> as
  the empty interface; the spec gives a task the attributes \<open>Key\<close>, \<open>CreatedAt\<close>,
  \<open>AttemptCount\<close>, \<open>LastError\<close>, \<open>LastAttemptAt\<close> and \<open>Status\<close>.
\<close>

datatype status = Pending | Failed | Done

record task =
  Key :: string
  CreatedAt :: nat
  AttemptCount :: nat
  LastError :: "error option"
  LastAttemptAt :: "nat option"
  Status :: status

text \<open>
  Modelled from the spec: the errors of a Store (section 7), a persistence error and
  the closed-store error.
\<close>

datatype store_error = PersistenceError | ClosedStore

text \<open>
  Modelled from the spec: the state of a Store implementation, which the sources do not
  hold. The records are kept as a list of rows, so that a duplicate record for a key
  can be expressed; \<open>closed\<close> is set by \<open>Close\<close>; \<open>available\<close> says whether the backing
  store can be reached.
\<close>

record store =
  rows :: "task list"
  closed :: bool
  available :: bool

text \<open>
  Modelled from the spec: when a write fails before touching the records. "Subsequent
  calls fail with a closed-store error" after \<open>Close\<close>; a write "fails with a
  persistence error if the backing store is unavailable".
\<close>

definition write_guard :: "store \<Rightarrow> store_error option" where
  "write_guard s =
    (if closed s then Some ClosedStore
     else if \<not> available s then Some PersistenceError
     else None)"

text \<open>
  Modelled from the spec: an upsert, "overwriting any prior record for the key".
\<close>

definition upsert :: "task \<Rightarrow> task list \<Rightarrow> task list" where
  "upsert t rs = filter (\<lambda>r. Key r \<noteq> Key t) rs @ [t]"

text \<open>
  Modelled from the spec: \<open>MarkPending(Task)\<close> of a Store implementation (section 4.2),
  "upserts as Pending".
\<close>

definition MarkPending :: "task \<Rightarrow> store \<Rightarrow> store_error option \<times> store" where
  "MarkPending t s =
    (case write_guard s of
       Some e \<Rightarrow> (Some e, s)
     | None \<Rightarrow> (None, s\<lparr>rows := upsert (t\<lparr>Status := Pending\<rparr>) (rows s)\<rparr>))"

text \<open>
  Modelled from the spec: \<open>MarkFailed(Task)\<close> of a Store implementation (section 4.2),
  "upserts as Failed with updated attempt metadata, overwriting any prior record for
  the key". The attempt metadata is the one of the task passed in.
\<close>

definition MarkFailed :: "task \<Rightarrow> store \<Rightarrow> store_error option \<times> store" where
  "MarkFailed t s =
    (case write_guard s of
       Some e \<Rightarrow> (Some e, s)
     | None \<Rightarrow> (None, s\<lparr>rows := upsert (t\<lparr>Status := Failed\<rparr>) (rows s)\<rparr>))"

text \<open>
  Modelled from the spec: \<open>MarkDone(Task)\<close> of a Store implementation (section 4.2),
  "removes/archives the record for the key; returns success (not an error) if already
  absent".
\<close>

definition MarkDone :: "task \<Rightarrow> store \<Rightarrow> store_error option \<times> store" where
  "MarkDone t s =
    (case write_guard s of
       Some e \<Rightarrow> (Some e, s)
     | None \<Rightarrow> (None, s\<lparr>rows := filter (\<lambda>r. Key r \<noteq> Key t) (rows s)\<rparr>))"

text \<open>
  Modelled from the spec: \<open>GetPending()\<close> and \<open>GetFailed()\<close> of a Store implementation
  (section 4.2), a "snapshot of all Pending tasks" and of all Failed tasks, with the
  result type the interface declares; a closed store returns the closed-store error.
\<close>

definition GetPending :: "store \<Rightarrow> task list \<times> store_error option" where
  "GetPending s =
    (if closed s then ([], Some ClosedStore)
     else (filter (\<lambda>r. Status r = Pending) (rows s), None))"

definition GetFailed :: "store \<Rightarrow> task list \<times> store_error option" where
  "GetFailed s =
    (if closed s then ([], Some ClosedStore)
     else (filter (\<lambda>r. Status r = Failed) (rows s), None))"

text \<open>
  Modelled from the spec: \<open>Close()\<close> of a Store implementation (section 4.2), "scoped
  release of underlying handles; subsequent calls fail with a closed-store error".
\<close>

definition Close :: "store \<Rightarrow> store_error option \<times> store" where
  "Close s = (if closed s then (Some ClosedStore, s) else (None, s\<lparr>closed := True\<rparr>))"

text \<open>The number of records a store holds for a key.\<close>

definition records_for :: "string \<Rightarrow> store \<Rightarrow> nat" where
  "records_for k s = length (filter (\<lambda>r. Key r = k) (rows s))"

text \<open>A store and a task to run the operations on.\<close>

definition empty_store :: store where
  "empty_store = \<lparr>rows = [], closed = False, available = True\<rparr>"

definition blob_A :: task where
  "blob_A =
    \<lparr>Key = ''blob-A'', CreatedAt = 1, AttemptCount = 0, LastError = None,
     LastAttemptAt = None, Status = Pending\<rparr>"

definition blob_B :: task where
  "blob_B =
    \<lparr>Key = ''blob-B'', CreatedAt = 2, AttemptCount = 3, LastError = Some ''timeout'',
     LastAttemptAt = Some 40, Status = Failed\<rparr>"

text \<open>A store that holds \<open>blob-A\<close> as Pending and \<open>blob-B\<close> as Failed.\<close>

definition demo_store :: store where
  "demo_store = \<lparr>rows = [blob_A, blob_B], closed = False, available = True\<rparr>"

subsection \<open>The Retry Manager\<close>

text \<open>
  Modelled from the spec: the configuration of the Retry Manager (section 4.4), which
  the sources do not hold: the size \<open>N\<close> of the worker pool, the backoff as a function
  of the attempt count, and the attempt ceiling.
\<close>

record manager_config =
  pool_size :: nat
  backoff :: "nat \<Rightarrow> nat"
  max_attempts :: nat

text \<open>
  Modelled from the spec: the state of a running Retry Manager: the Store, the tasks
  whose \<open>Exec\<close> call is active (one per busy worker), and the current time.
\<close>

record manager =
  the_store :: store
  in_flight :: "task list"
  now :: nat

text \<open>
  Modelled from the spec: the due set (section 4.4, step 1), \<open>GetPending()\<close> together
  with the Failed tasks whose backoff has elapsed, \<open>now \<ge> nextEligible(f)\<close> with
  \<open>nextEligible = time of the last attempt + backoff(AttemptCount)\<close>; tasks beyond the
  attempt ceiling are excluded from scheduling (step 5).
\<close>

definition nextEligible :: "manager_config \<Rightarrow> task \<Rightarrow> nat" where
  "nextEligible cfg f =
    (case LastAttemptAt f of None \<Rightarrow> 0 | Some at \<Rightarrow> at + backoff cfg (AttemptCount f))"

definition due :: "manager_config \<Rightarrow> manager \<Rightarrow> task list" where
  "due cfg m =
    fst (GetPending (the_store m))
    @ filter (\<lambda>f. nextEligible cfg f \<le> now m \<and> AttemptCount f \<le> max_attempts cfg)
        (fst (GetFailed (the_store m)))"

text \<open>
  Modelled from the spec: what can happen in a running Manager, one atomic step at a
  time (the workers run in parallel; their steps interleave). \<open>Dispatch t\<close>: a free
  worker takes the due task \<open>t\<close> and its \<open>Exec\<close> call starts. \<open>Finish k r\<close>: the \<open>Exec\<close>
  call for key \<open>k\<close> ends with result \<open>r\<close> (nil, or an error or timeout). \<open>Enqueue t\<close>: a
  producer submits \<open>t\<close> through \<open>MarkPending\<close>. \<open>Tick d\<close>: time passes.
\<close>

datatype action =
    Dispatch task
  | Finish string "error option"
  | Enqueue task
  | Tick nat

text \<open>
  Modelled from the spec: one step of the Manager (section 4.4, steps 2 and 3). A task
  is dispatched only when it is due, a worker is free (the pool is bounded by \<open>N\<close>) and
  its key is not in flight: "a key already in flight is skipped until its worker
  finishes". On success the task is marked done; on failure its attempt count is
  incremented and it is marked failed. A persistence error of the Store does not abort
  the Manager. The order in which due tasks are taken (oldest first) is left open:
  every due task may be dispatched. A step that is not enabled leaves the state as it
  is.
\<close>

definition finish :: "task \<Rightarrow> error option \<Rightarrow> manager \<Rightarrow> manager" where
  "finish t r m =
    (case r of
       None \<Rightarrow> m\<lparr>the_store := snd (MarkDone t (the_store m))\<rparr>
     | Some err \<Rightarrow>
         m\<lparr>the_store :=
             snd (MarkFailed
                    (t\<lparr>AttemptCount := AttemptCount t + 1, LastError := Some err,
                       LastAttemptAt := Some (now m)\<rparr>)
                    (the_store m))\<rparr>)"

fun manager_step :: "manager_config \<Rightarrow> manager \<Rightarrow> action \<Rightarrow> manager" where
  "manager_step cfg m (Dispatch t) =
    (if t \<in> set (due cfg m) \<and> length (in_flight m) < pool_size cfg
        \<and> Key t \<notin> set (map Key (in_flight m))
     then m\<lparr>in_flight := in_flight m @ [t]\<rparr>
     else m)"
| "manager_step cfg m (Finish k r) =
    (case find (\<lambda>t. Key t = k) (in_flight m) of
       None \<Rightarrow> m
     | Some t \<Rightarrow> (finish t r m)\<lparr>in_flight := filter (\<lambda>t. Key t \<noteq> k) (in_flight m)\<rparr>)"
| "manager_step cfg m (Enqueue t) = m\<lparr>the_store := snd (MarkPending t (the_store m))\<rparr>"
| "manager_step cfg m (Tick d) = m\<lparr>now := now m + d\<rparr>"

text \<open>
  Modelled from the spec: a freshly started Manager holds no state of its own (no
  \<open>Exec\<close> call is active), and a reachable state is what a sequence of steps leads to.
\<close>

definition start :: "store \<Rightarrow> manager" where
  "start st = \<lparr>the_store = st, in_flight = [], now = 0\<rparr>"

definition run_manager :: "manager_config \<Rightarrow> store \<Rightarrow> action list \<Rightarrow> manager" where
  "run_manager cfg st acts = foldl (manager_step cfg) (start st) acts"

text \<open>The number of \<open>Exec\<close> calls active for a key.\<close>

definition active_execs :: "string \<Rightarrow> manager \<Rightarrow> nat" where
  "active_execs k m = length (filter (\<lambda>t. Key t = k) (in_flight m))"

section \<open>Properties of the contracts\<close>

text \<open>
  C1 (the claim as stated fails): the claim says that every value usable as a Task must
  expose a \<open>Key()\<close> operation. The declaration is \<open>type Task interface{}\<close>: a type with
  no method at all (so no \<open>Key\<close>) implements \<open>Task\<close>.
\<close>

theorem Task_without_Key_counterexample:
  "implements [] Task \<and> \<not> has_method [] ''Key''"
  by (simp add: implements_def has_method_def Task_def)

text \<open>
  C1 (amended): the Task contract requires no operation. Its method set is empty, so
  every concrete type, whatever its methods, is usable as a Task, and \<open>Key\<close> is not
  among the operations the contract requires.
\<close>

theorem Task_requires_nothing:
  "implements ms Task \<and> map mname Task = [] \<and> \<not> has_method Task ''Key''"
  by (simp add: implements_def has_method_def Task_def)

theorem Task_requires_nothing_witness:
  "implements [\<lparr>mname = ''String'', params = [], results = []\<rparr>] Task
   \<and> \<not> has_method Task ''Key''"
  using Task_requires_nothing [of "[\<lparr>mname = ''String'', params = [], results = []\<rparr>]"]
  by blast

text \<open>
  C3: the Executor contract is exactly one operation, \<open>Exec\<close>, which takes a Task and
  returns one result of type \<open>error\<close> (in Go an \<open>error\<close> is either an error value or
  nil). A type is an Executor exactly when it has this operation, and the contract
  requires no operation under any other name.
\<close>

theorem Executor_only_Exec:
  "length Executor = 1
   \<and> lookup_method Executor ''Exec'' =
       Some \<lparr>mname = ''Exec'', params = [TyTask], results = [TyError]\<rparr>
   \<and> implements ms Executor =
       (\<lparr>mname = ''Exec'', params = [TyTask], results = [TyError]\<rparr> \<in> set ms)
   \<and> has_method Executor n = (n = ''Exec'')"
  by (auto simp add: lookup_method_def implements_def has_method_def Executor_def)

section \<open>Properties of the bootstrap\<close>

subsection \<open>Build or abort\<close>

lemma abort_ok_emit:
  "abort_ok k \<Longrightarrow> (\<And>s err. e \<noteq> Call s (Some err)) \<Longrightarrow> abort_ok (emit e k)"
  by (auto simp add: abort_ok_def emit_def)

lemma abort_ok_emit_all:
  assumes "abort_ok k" and "\<And>s err. Call s (Some err) \<notin> set es"
  shows "abort_ok (emit_all es k)"
proof -
  have "last (es @ fst k) = last (fst k)" if "x \<in> set (fst k)" for x
    using that by (cases "fst k") auto
  with assms show ?thesis
    by (auto simp add: abort_ok_def emit_all_def)
qed

lemma abort_ok_stop:
  "abort = panic_err \<or> (\<exists>fmt. abort = fatalf fmt) \<Longrightarrow>
   abort_ok ([Call s (Some err)], abort err)"
  by (auto simp add: abort_ok_def panic_err_def fatalf_def)

lemma abort_ok_call:
  "abort_ok k \<Longrightarrow> abort_ok (call s r (fatalf fmt) k)"
  by (cases r) (auto simp add: call_def abort_ok_emit intro: abort_ok_stop)

lemma abort_ok_call_val_fatalf:
  "(\<And>v. abort_ok (k v)) \<Longrightarrow> abort_ok (call_val s r (fatalf fmt) k)"
  by (cases r) (auto simp add: call_val_def abort_ok_emit intro: abort_ok_stop)

lemma abort_ok_call_val_panic:
  "(\<And>v. abort_ok (k v)) \<Longrightarrow> abort_ok (call_val s r panic_err k)"
  by (cases r) (auto simp add: call_val_def abort_ok_emit intro: abort_ok_stop)

lemma wipe_logs_no_call: "Call s r \<notin> set (wipe_logs w names)"
  by (induction names) (auto split: option.splits)

lemma abort_ok_nginx: "abort_ok ([NginxRun p r], fatal r)"
  by (simp add: abort_ok_def fatal_def)

lemma abort_ok_panic: "abort_ok ([], Panic v)"
  by (simp add: abort_ok_def)

lemma abort_ok_components: "abort_ok (Run_components w flags config)"
  unfolding Run_components_def
  by (intro abort_ok_call abort_ok_emit abort_ok_emit_all abort_ok_nginx wipe_logs_no_call)
     simp_all

lemma abort_ok_configured: "abort_ok (Run_configured w flags config)"
  unfolding Run_configured_def
  by (intro abort_ok_call abort_ok_emit)
     (simp_all add: abort_ok_call_val_fatalf abort_ok_components)

lemma abort_ok_Run: "abort_ok (Run w flags)"
  unfolding Run_def
  by (simp add: abort_ok_panic abort_ok_call_val_panic abort_ok_configured)

lemma ends_at_emit:
  "e \<noteq> Call s (Some err) \<Longrightarrow> ends_at (emit e k) s err x = ends_at k s err x"
  by (cases "fst k") (auto simp add: ends_at_def emit_def)

lemma ends_at_call_None: "ends_at (call s' None abort k) s err x = ends_at k s err x"
  by (simp add: call_def ends_at_emit)

lemma ends_at_call_Some:
  "ends_at (call s' (Some e) (fatalf fmt) k) s err x
     = (s = s' \<and> err = e \<and> x = Fatal (fmt @ e))"
  by (auto simp add: call_def ends_at_def fatalf_def)

lemma ends_at_call_val_Inr:
  "ends_at (call_val s' (Inr v) abort k) s err x = ends_at (k v) s err x"
  by (simp add: call_val_def ends_at_emit)

lemma ends_at_call_val_Inl_fatalf:
  "ends_at (call_val s' (Inl e) (fatalf fmt) k) s err x
     = (s = s' \<and> err = e \<and> x = Fatal (fmt @ e))"
  by (auto simp add: call_val_def ends_at_def fatalf_def)

lemma ends_at_call_val_Inl_panic:
  "ends_at (call_val s' (Inl e) panic_err k) s err x
     = (s = s' \<and> err = e \<and> x = Panic (PanicError e))"
  by (auto simp add: call_val_def ends_at_def panic_err_def)

lemmas ends_at_simps =
  ends_at_emit ends_at_call_None ends_at_call_Some ends_at_call_val_Inr
  ends_at_call_val_Inl_fatalf ends_at_call_val_Inl_panic

text \<open>
  C8: \<open>Run\<close> is sequential build-or-abort. It never returns to its caller (its last
  statement is a fatal log), so it returns no error. Whenever a construction step
  appears in a run as having returned an error, it is the last effect of the run. And
  for each construction step in turn (the load of the configuration file, the load of
  the secrets, the metrics, the local IP, the peer context, the store, the network
  events, the trackers, the TLS configuration, the scheduler, the build index, the
  registry): when the port checks have passed, the steps before it have succeeded and
  its constructor returns an error, that step is the last effect of the run and the
  process ends there, in a panic with that error for the two loads and in a fatal log
  with the step's message and that error for the others.
\<close>

theorem Run_build_or_abort:
  "snd (Run w flags) \<noteq> Returned
   \<and> (Call s (Some err) \<in> set (fst (Run w flags)) \<longrightarrow>
        last (fst (Run w flags)) = Call s (Some err) \<and>
        (snd (Run w flags) = Panic (PanicError err)
         \<or> (\<exists>fmt. snd (Run w flags) = Fatal (fmt @ err))))
   \<and> (PeerPort flags \<noteq> 0 \<and> AgentServerPort flags \<noteq> 0 \<and> AgentRegistryPort flags \<noteq> 0 \<longrightarrow>
     (\<forall>err. configutil_Load w (ConfigFile flags) (zero_config w) = Inl err \<longrightarrow>
        ends_at (Run w flags) (LoadFile (ConfigFile flags)) err (Panic (PanicError err)))
   \<and> (\<forall>base. configutil_Load w (ConfigFile flags) (zero_config w) = Inr base \<longrightarrow>
     (\<forall>err. SecretsFile flags \<noteq> '''' \<and> configutil_Load w (SecretsFile flags) base = Inl err \<longrightarrow>
        ends_at (Run w flags) (LoadFile (SecretsFile flags)) err (Panic (PanicError err)))
   \<and> (\<forall>config.
        (if SecretsFile flags \<noteq> '''' then configutil_Load w (SecretsFile flags) base = Inr config
         else config = base) \<longrightarrow>
     (\<forall>err. metrics_New w config (KrakenCluster flags) = Some err \<longrightarrow>
        ends_at (Run w flags) Metrics err (Fatal (''Failed to init metrics: '' @ err)))
   \<and> (metrics_New w config (KrakenCluster flags) = None \<longrightarrow>
     (\<forall>err. PeerIP flags = '''' \<and> netutil_GetLocalIP w = Inl err \<longrightarrow>
        ends_at (Run w flags) LocalIP err (Fatal (''Error getting local ip: '' @ err)))
   \<and> (\<forall>ip.
        (if PeerIP flags = '''' then netutil_GetLocalIP w = Inr ip else ip = PeerIP flags) \<longrightarrow>
     (\<forall>err. core_NewPeerContext w config (Zone flags) (KrakenCluster flags) ip
              (PeerPort flags) = Some err \<longrightarrow>
        ends_at (Run w flags) PeerContext err
          (Fatal (''Failed to create peer context: '' @ err)))
   \<and> (core_NewPeerContext w config (Zone flags) (KrakenCluster flags) ip (PeerPort flags)
         = None \<longrightarrow>
     (\<forall>err. store_NewCADownloadStore w config = Some err \<longrightarrow>
        ends_at (Run w flags) LocalStore err (Fatal (''Failed to create local store: '' @ err)))
   \<and> (store_NewCADownloadStore w config = None \<longrightarrow>
     (\<forall>err. networkevent_NewProducer w config = Some err \<longrightarrow>
        ends_at (Run w flags) NetworkEvents err
          (Fatal (''Failed to create network event producer: '' @ err)))
   \<and> (networkevent_NewProducer w config = None \<longrightarrow>
     (\<forall>err. Tracker_Build w config = Some err \<longrightarrow>
        ends_at (Run w flags) Trackers err
          (Fatal (''Error building tracker upstream: '' @ err)))
   \<and> (Tracker_Build w config = None \<longrightarrow>
     (\<forall>err. TLS_BuildClient w config = Some err \<longrightarrow>
        ends_at (Run w flags) ClientTLS err
          (Fatal (''Error building client tls config: '' @ err)))
   \<and> (TLS_BuildClient w config = None \<longrightarrow>
     (\<forall>err. scheduler_NewAgentScheduler w config = Some err \<longrightarrow>
        ends_at (Run w flags) Scheduler err (Fatal (''Error creating scheduler: '' @ err)))
   \<and> (scheduler_NewAgentScheduler w config = None \<longrightarrow>
     (\<forall>err. BuildIndex_Build w config = Some err \<longrightarrow>
        ends_at (Run w flags) BuildIndex err
          (Fatal (''Error building build-index upstream: '' @ err)))
   \<and> (BuildIndex_Build w config = None \<longrightarrow>
     (\<forall>err. Registry_Build w config = Some err \<longrightarrow>
        ends_at (Run w flags) Registry err
          (Fatal (''Failed to init registry: '' @ err)))))))))))))))"
proof (intro conjI)
  show "snd (Run w flags) \<noteq> Returned"
    using abort_ok_Run [of w flags] unfolding abort_ok_def by blast
  show "Call s (Some err) \<in> set (fst (Run w flags)) \<longrightarrow>
        last (fst (Run w flags)) = Call s (Some err) \<and>
        (snd (Run w flags) = Panic (PanicError err)
         \<or> (\<exists>fmt. snd (Run w flags) = Fatal (fmt @ err)))"
    using abort_ok_Run [of w flags] unfolding abort_ok_def by blast
qed (intro conjI allI impI;
     simp add: Run_def Run_configured_def Run_components_def ends_at_simps split: if_splits)

theorem Run_build_or_abort_witness:
  "ends_at (Run demo_world (demo_flags\<lparr>SecretsFile := ''''\<rparr>)) Registry ''no credentials''
     (Fatal (''Failed to init registry: '' @ ''no credentials''))
   \<and> ends_at (Run (demo_world\<lparr>metrics_New := (\<lambda>c k. Some ''no statsd'')\<rparr>) demo_flags)
       Metrics ''no statsd'' (Fatal (''Failed to init metrics: '' @ ''no statsd''))
   \<and> ends_at (Run demo_world (demo_flags\<lparr>ConfigFile := ''missing.yaml''\<rparr>))
       (LoadFile ''missing.yaml'') ''no such file'' (Panic (PanicError ''no such file''))"
proof -
  from Run_build_or_abort [where w = demo_world and flags = "demo_flags\<lparr>SecretsFile := ''''\<rparr>"
      and s = Registry and err = "''no credentials''"]
  have registry: "ends_at (Run demo_world (demo_flags\<lparr>SecretsFile := ''''\<rparr>)) Registry
      ''no credentials'' (Fatal (''Failed to init registry: '' @ ''no credentials''))"
    by (simp add: demo_world_def demo_flags_def)
  from Run_build_or_abort [where w = "demo_world\<lparr>metrics_New := (\<lambda>c k. Some ''no statsd'')\<rparr>"
      and flags = demo_flags and s = Metrics and err = "''no statsd''"]
  have metrics: "ends_at (Run (demo_world\<lparr>metrics_New := (\<lambda>c k. Some ''no statsd'')\<rparr>)
      demo_flags) Metrics ''no statsd'' (Fatal (''Failed to init metrics: '' @ ''no statsd''))"
    by (simp add: demo_world_def demo_flags_def)
  from Run_build_or_abort [where w = demo_world
      and flags = "demo_flags\<lparr>ConfigFile := ''missing.yaml''\<rparr>"
      and s = "LoadFile ''missing.yaml''" and err = "''no such file''"]
  have load: "ends_at (Run demo_world (demo_flags\<lparr>ConfigFile := ''missing.yaml''\<rparr>))
      (LoadFile ''missing.yaml'') ''no such file'' (Panic (PanicError ''no such file''))"
    by (simp add: demo_world_def demo_flags_def)
  from registry metrics load show ?thesis
    by simp
qed

subsection \<open>The port checks\<close>

lemma snd_emit: "snd (emit e k) = snd k"
  by (simp add: emit_def)

lemma snd_emit_all: "snd (emit_all es k) = snd k"
  by (simp add: emit_all_def)

lemma is_fatal_call: "is_fatal (snd k) \<Longrightarrow> is_fatal (snd (call s r (fatalf fmt) k))"
  by (cases r) (simp_all add: call_def snd_emit is_fatal_def fatalf_def)

lemma is_fatal_call_val:
  "(\<And>v. is_fatal (snd (k v))) \<Longrightarrow> is_fatal (snd (call_val s r (fatalf fmt) k))"
  by (cases r) (simp_all add: call_val_def snd_emit is_fatal_def fatalf_def)

lemma is_fatal_fatal: "is_fatal (fatal r)"
  by (simp add: is_fatal_def fatal_def)

lemma is_fatal_components: "is_fatal (snd (Run_components w flags config))"
  by (simp add: Run_components_def is_fatal_call snd_emit snd_emit_all is_fatal_fatal)

lemma is_fatal_configured: "is_fatal (snd (Run_configured w flags config))"
  unfolding Run_configured_def
  by (simp add: snd_emit is_fatal_call is_fatal_call_val is_fatal_components)

lemma configured_no_panic: "snd (Run_configured w flags config) \<noteq> Panic v"
  using is_fatal_configured [of w flags config] by (auto simp add: is_fatal_def)

text \<open>
  C9: \<open>Run\<close> checks its three port flags before any other effect. When \<open>PeerPort\<close>,
  \<open>AgentServerPort\<close> or \<open>AgentRegistryPort\<close> is zero it panics with the message of the
  first failing check and has performed no effect, so no configuration file has been
  loaded; when all three are non-zero, \<open>Run\<close> does not end in any panic with a string
  message, in particular in none of these three.
\<close>

theorem Run_validates_ports_first:
  "(PeerPort flags = 0 \<longrightarrow>
      Run w flags = ([], Panic (PanicString ''must specify non-zero peer port'')))
   \<and> (PeerPort flags \<noteq> 0 \<and> AgentServerPort flags = 0 \<longrightarrow>
      Run w flags = ([], Panic (PanicString ''must specify non-zero agent server port'')))
   \<and> (PeerPort flags \<noteq> 0 \<and> AgentServerPort flags \<noteq> 0 \<and> AgentRegistryPort flags = 0 \<longrightarrow>
      Run w flags = ([], Panic (PanicString ''must specify non-zero agent registry port'')))
   \<and> (PeerPort flags \<noteq> 0 \<and> AgentServerPort flags \<noteq> 0 \<and> AgentRegistryPort flags \<noteq> 0 \<longrightarrow>
      snd (Run w flags) \<noteq> Panic (PanicString m))"
  by (simp add: Run_def call_val_def snd_emit panic_err_def configured_no_panic
      split: sum.splits)

theorem Run_validates_ports_first_witness:
  "AgentRegistryPort (demo_flags\<lparr>AgentRegistryPort := 0\<rparr>) = 0
   \<and> Run demo_world (demo_flags\<lparr>AgentRegistryPort := 0\<rparr>)
       = ([], Panic (PanicString ''must specify non-zero agent registry port''))
   \<and> loads (fst (Run demo_world (demo_flags\<lparr>AgentRegistryPort := 0\<rparr>))) = []
   \<and> PeerPort demo_flags \<noteq> 0 \<and> AgentServerPort demo_flags \<noteq> 0
   \<and> AgentRegistryPort demo_flags \<noteq> 0
   \<and> snd (Run demo_world demo_flags)
       \<noteq> Panic (PanicString ''must specify non-zero agent registry port'')"
proof -
  have zero: "PeerPort (demo_flags\<lparr>AgentRegistryPort := 0\<rparr>) \<noteq> 0
      \<and> AgentServerPort (demo_flags\<lparr>AgentRegistryPort := 0\<rparr>) \<noteq> 0
      \<and> AgentRegistryPort (demo_flags\<lparr>AgentRegistryPort := 0\<rparr>) = 0"
    by (simp add: demo_flags_def)
  have ok: "PeerPort demo_flags \<noteq> 0 \<and> AgentServerPort demo_flags \<noteq> 0
      \<and> AgentRegistryPort demo_flags \<noteq> 0"
    by (simp add: demo_flags_def)
  from Run_validates_ports_first [where flags = "demo_flags\<lparr>AgentRegistryPort := 0\<rparr>"
      and w = demo_world] zero
  have stopped: "Run demo_world (demo_flags\<lparr>AgentRegistryPort := 0\<rparr>)
      = ([], Panic (PanicString ''must specify non-zero agent registry port''))"
    by blast
  from Run_validates_ports_first [where flags = demo_flags and w = demo_world
      and m = "''must specify non-zero agent registry port''"] ok
  have "snd (Run demo_world demo_flags)
      \<noteq> Panic (PanicString ''must specify non-zero agent registry port'')"
    by blast
  with zero ok stopped show ?thesis
    by simp
qed

subsection \<open>Loading the configuration\<close>

lemma loads_append: "loads (xs @ ys) = loads xs @ loads ys"
  by (induction xs rule: loads.induct) simp_all

lemma configs_append: "configs (xs @ ys) = configs xs @ configs ys"
  by (induction xs rule: configs.induct) simp_all

lemma loads_wipe_logs: "loads (wipe_logs w names) = []"
  by (induction names) (simp_all add: loads_append split: option.splits)

lemma configs_wipe_logs: "configs (wipe_logs w names) = []"
  by (induction names) (simp_all add: configs_append split: option.splits)

lemma loads_components: "loads (fst (Run_components w flags config)) = []"
  by (simp add: Run_components_def call_def emit_def emit_all_def loads_append loads_wipe_logs
      split: option.splits)

lemma configs_components: "configs (fst (Run_components w flags config)) = []"
  by (simp add: Run_components_def call_def emit_def emit_all_def configs_append
      configs_wipe_logs split: option.splits)

lemma loads_configured: "loads (fst (Run_configured w flags config)) = []"
  by (simp add: Run_configured_def call_def call_val_def emit_def loads_components
      split: option.splits sum.splits)

lemma configs_configured: "configs (fst (Run_configured w flags config)) = [config]"
  by (simp add: Run_configured_def call_def call_val_def emit_def configs_components
      split: option.splits sum.splits)

text \<open>
  C10 (the claim as stated fails): the claim says \<open>Run\<close> loads the file named by
  \<open>ConfigFile\<close> unconditionally, and the file named by \<open>SecretsFile\<close> whenever that name
  is non-empty. With a zero peer port \<open>Run\<close> panics before it loads anything: the
  configuration file is named, and no file is loaded. And when the load of the
  configuration file fails, the secrets are named and are not loaded.
\<close>

theorem Run_loads_unconditionally_counterexample:
  "ConfigFile (demo_flags\<lparr>PeerPort := 0\<rparr>) = ''agent.yaml''
   \<and> loads (fst (Run demo_world (demo_flags\<lparr>PeerPort := 0\<rparr>))) = []
   \<and> SecretsFile (demo_flags\<lparr>ConfigFile := ''missing.yaml''\<rparr>) = ''secrets.yaml''
   \<and> loads (fst (Run demo_world (demo_flags\<lparr>ConfigFile := ''missing.yaml''\<rparr>)))
       = [''missing.yaml'']"
  by (simp add: Run_def call_val_def demo_world_def demo_flags_def)

text \<open>
  C10 (amended): once the three port checks have passed, \<open>Run\<close> loads the file named by
  \<open>ConfigFile\<close> into the zero configuration, as its first effect. If that load fails,
  \<open>Run\<close> panics with the load's error and loads nothing else. If it succeeds, \<open>Run\<close>
  loads the file named by \<open>SecretsFile\<close> if and only if \<open>SecretsFile\<close> is non-empty, as
  its second effect and into the configuration the first load produced (so the secrets
  are applied on top of the base configuration); if the secrets load fails, \<open>Run\<close>
  panics with its error. When the loads have succeeded, the rest of \<open>Run\<close> goes on with
  the configuration the last load produced, and loads no further file.
\<close>

theorem Run_loads_config_then_secrets:
  "PeerPort flags \<noteq> 0 \<Longrightarrow> AgentServerPort flags \<noteq> 0 \<Longrightarrow> AgentRegistryPort flags \<noteq> 0 \<Longrightarrow>
   (case configutil_Load w (ConfigFile flags) (zero_config w) of
      Inl err \<Rightarrow>
        Run w flags =
          ([Call (LoadFile (ConfigFile flags)) (Some err)], Panic (PanicError err))
    | Inr base \<Rightarrow>
        if SecretsFile flags = '''' then
          fst (Run w flags) =
            Call (LoadFile (ConfigFile flags)) None # fst (Run_configured w flags base)
          \<and> snd (Run w flags) = snd (Run_configured w flags base)
          \<and> loads (fst (Run w flags)) = [ConfigFile flags]
          \<and> configs (fst (Run w flags)) = [base]
        else
          (case configutil_Load w (SecretsFile flags) base of
             Inl err \<Rightarrow>
               Run w flags =
                 ([Call (LoadFile (ConfigFile flags)) None,
                   Call (LoadFile (SecretsFile flags)) (Some err)],
                  Panic (PanicError err))
           | Inr config \<Rightarrow>
               fst (Run w flags) =
                 Call (LoadFile (ConfigFile flags)) None
                 # Call (LoadFile (SecretsFile flags)) None
                 # fst (Run_configured w flags config)
               \<and> snd (Run w flags) = snd (Run_configured w flags config)
               \<and> loads (fst (Run w flags)) = [ConfigFile flags, SecretsFile flags]
               \<and> configs (fst (Run w flags)) = [config]))"
  by (simp add: Run_def call_val_def emit_def panic_err_def loads_configured
      configs_configured split: sum.splits)

theorem Run_loads_config_then_secrets_witness:
  "PeerPort demo_flags \<noteq> 0 \<and> AgentServerPort demo_flags \<noteq> 0
   \<and> AgentRegistryPort demo_flags \<noteq> 0
   \<and> take 2 (fst (Run demo_world demo_flags))
       = [Call (LoadFile ''agent.yaml'') None, Call (LoadFile ''secrets.yaml'') None]
   \<and> loads (fst (Run demo_world demo_flags)) = [''agent.yaml'', ''secrets.yaml'']
   \<and> configs (fst (Run demo_world demo_flags)) = [[''agent.yaml'', ''secrets.yaml'']]
   \<and> Run demo_world (demo_flags\<lparr>ConfigFile := ''missing.yaml''\<rparr>)
       = ([Call (LoadFile ''missing.yaml'') (Some ''no such file'')],
          Panic (PanicError ''no such file''))"
proof -
  have ok: "PeerPort demo_flags \<noteq> 0" "AgentServerPort demo_flags \<noteq> 0"
    "AgentRegistryPort demo_flags \<noteq> 0"
    by (simp_all add: demo_flags_def)
  have ok': "PeerPort (demo_flags\<lparr>ConfigFile := ''missing.yaml''\<rparr>) \<noteq> 0"
    "AgentServerPort (demo_flags\<lparr>ConfigFile := ''missing.yaml''\<rparr>) \<noteq> 0"
    "AgentRegistryPort (demo_flags\<lparr>ConfigFile := ''missing.yaml''\<rparr>) \<noteq> 0"
    by (simp_all add: demo_flags_def)
  have loaded: "configutil_Load demo_world ''agent.yaml'' [] = Inr [''agent.yaml'']"
    "configutil_Load demo_world ''secrets.yaml'' [''agent.yaml'']
       = Inr [''agent.yaml'', ''secrets.yaml'']"
    "configutil_Load demo_world ''missing.yaml'' [] = Inl ''no such file''"
    "zero_config demo_world = []"
    by (simp_all add: demo_world_def)
  have names: "ConfigFile demo_flags = ''agent.yaml''" "SecretsFile demo_flags = ''secrets.yaml''"
    "ConfigFile (demo_flags\<lparr>ConfigFile := ''missing.yaml''\<rparr>) = ''missing.yaml''"
    by (simp_all add: demo_flags_def)
  from Run_loads_config_then_secrets [OF ok, where w = demo_world]
  have both: "fst (Run demo_world demo_flags) =
      Call (LoadFile ''agent.yaml'') None # Call (LoadFile ''secrets.yaml'') None
      # fst (Run_configured demo_world demo_flags [''agent.yaml'', ''secrets.yaml''])
    \<and> loads (fst (Run demo_world demo_flags)) = [''agent.yaml'', ''secrets.yaml'']
    \<and> configs (fst (Run demo_world demo_flags)) = [[''agent.yaml'', ''secrets.yaml'']]"
    by (auto simp add: loaded names)
  from Run_loads_config_then_secrets [OF ok', where w = demo_world]
  have failed: "Run demo_world (demo_flags\<lparr>ConfigFile := ''missing.yaml''\<rparr>)
      = ([Call (LoadFile ''missing.yaml'') (Some ''no such file'')],
         Panic (PanicError ''no such file''))"
    by (simp add: loaded names)
  from ok both failed show ?thesis
    by (simp add: loads_configured configs_configured)
qed

subsection \<open>The heartbeat\<close>

lemma heartbeat_closed_form:
  "heartbeat n s =
     Running
       (s\<lparr>counters := (counters s)(''heartbeat'' := counters s ''heartbeat'' + int n),
          slept := slept s + n * (10 * time_Second)\<rparr>)"
  by (induction n arbitrary: s) (simp_all add: heartbeat_body_def algebra_simps)

text \<open>
  C7: the heartbeat loop is unbounded. Started in any state and run for any number
  \<open>n\<close> of iterations, the loop is still running (it has not been left: there is no path
  out of it), it has incremented the \<open>heartbeat\<close> counter exactly \<open>n\<close> times, and it has
  slept 10 seconds per increment; nothing else has changed.
\<close>

theorem heartbeat_unbounded:
  "heartbeat n s =
     Running
       (s\<lparr>counters := (counters s)(''heartbeat'' := counters s ''heartbeat'' + int n),
          slept := slept s + n * (10 * time_Second)\<rparr>)
   \<and> heartbeat n s \<noteq> Exited s'"
  by (simp add: heartbeat_closed_form)

section \<open>Properties of the reference Store and the Retry Manager\<close>

subsection \<open>Reads and writes of the Store\<close>

lemma filter_other_keys:
  "length (filter (\<lambda>r. Key r = k) rs) = 0 \<Longrightarrow> filter (\<lambda>r. Key r \<noteq> k) rs = rs"
  by (simp add: filter_empty_conv filter_id_conv)

lemma filter_key_upsert: "filter (\<lambda>r. Key r = Key t) (upsert t rs) = [t]"
  by (simp add: upsert_def)

lemma filter_other_upsert:
  "filter (\<lambda>r. Key r \<noteq> Key t) (upsert t rs) = filter (\<lambda>r. Key r \<noteq> Key t) rs"
  by (simp add: upsert_def)

lemma upsert_upsert: "Key t' = Key t \<Longrightarrow> upsert t' (upsert t rs) = upsert t' rs"
  by (simp add: upsert_def)

lemma length_upsert:
  "length (upsert t rs) + length (filter (\<lambda>r. Key r = Key t) rs) = length rs + 1"
  using sum_length_filter_compl [of "\<lambda>r. Key r = Key t" rs]
  by (simp add: upsert_def)

lemma count_list_filter:
  "count_list (filter P xs) x = (if P x then count_list xs x else 0)"
  by (induction xs) auto

lemma filter_status_key_upsert:
  "Key t' = k \<Longrightarrow>
   filter (\<lambda>r. Status r = st \<and> Key r = k) (upsert t' rs)
     = (if Status t' = st then [t'] else [])"
  by (auto simp add: upsert_def filter_empty_conv)

lemma open_store_writes:
  assumes "\<not> closed s" and "available s"
  shows "MarkPending t s = (None, s\<lparr>rows := upsert (t\<lparr>Status := Pending\<rparr>) (rows s)\<rparr>)"
    and "MarkFailed t s = (None, s\<lparr>rows := upsert (t\<lparr>Status := Failed\<rparr>) (rows s)\<rparr>)"
    and "MarkDone t s = (None, s\<lparr>rows := filter (\<lambda>r. Key r \<noteq> Key t) (rows s)\<rparr>)"
  using assms by (simp_all add: MarkPending_def MarkFailed_def MarkDone_def write_guard_def)

lemma reads_after_writes:
  assumes "\<not> closed s" and "available s"
  shows "filter (\<lambda>r. Key r = Key t) (fst (GetFailed (snd (MarkFailed t s))))
           = [t\<lparr>Status := Failed\<rparr>]"
    and "filter (\<lambda>r. Key r = Key t) (fst (GetPending (snd (MarkFailed t s)))) = []"
    and "filter (\<lambda>r. Key r = Key t) (fst (GetPending (snd (MarkPending t s))))
           = [t\<lparr>Status := Pending\<rparr>]"
    and "filter (\<lambda>r. Key r = Key t) (fst (GetFailed (snd (MarkPending t s)))) = []"
    and "filter (\<lambda>r. Key r = Key t) (fst (GetPending (snd (MarkDone t s)))) = []"
    and "filter (\<lambda>r. Key r = Key t) (fst (GetFailed (snd (MarkDone t s)))) = []"
  using assms
  by (simp_all add: open_store_writes GetFailed_def GetPending_def filter_status_key_upsert
      filter_empty_conv)

text \<open>
  C2 (the claim as stated fails): the claim gives \<open>GetFailed\<close> and \<open>GetPending\<close> the
  spec's signature, whose only result is a sequence of Tasks. The declared result list
  of \<open>GetFailed\<close> is not the one-element list \<open>[[]Task]\<close>: the operation also returns an
  \<open>error\<close>.
\<close>

theorem GetFailed_result_counterexample:
  "map_option results (lookup_method Store ''GetFailed'') \<noteq> Some [TySlice TyTask]"
  by (simp add: lookup_method_def Store_def)

text \<open>
  C2 (amended): \<open>GetFailed\<close> and \<open>GetPending\<close> are operations of every Store; each takes
  no argument and returns a sequence of Tasks and an \<open>error\<close>. On the reference Store
  the sequence is a snapshot of all Failed, respectively all Pending, tasks: while the
  Store is open the error is nil and the sequence holds every record of that status,
  each as often as the Store holds it, and no other record. A record is Failed when
  its key was last written by \<open>MarkFailed\<close>, Pending when it was last written by
  \<open>MarkPending\<close>, and in neither sequence after \<open>MarkDone\<close>. A closed Store returns the
  closed-store error.
\<close>

theorem Store_reads_snapshot_and_error:
  "lookup_method Store ''GetFailed'' =
     Some \<lparr>mname = ''GetFailed'', params = [], results = [TySlice TyTask, TyError]\<rparr>
   \<and> lookup_method Store ''GetPending'' =
     Some \<lparr>mname = ''GetPending'', params = [], results = [TySlice TyTask, TyError]\<rparr>
   \<and> (implements ms Store \<longrightarrow>
        \<lparr>mname = ''GetFailed'', params = [], results = [TySlice TyTask, TyError]\<rparr> \<in> set ms
      \<and> \<lparr>mname = ''GetPending'', params = [], results = [TySlice TyTask, TyError]\<rparr> \<in> set ms)
   \<and> (\<not> closed s \<longrightarrow>
        snd (GetFailed s) = None \<and> snd (GetPending s) = None
      \<and> count_list (fst (GetFailed s)) r
          = (if Status r = Failed then count_list (rows s) r else 0)
      \<and> count_list (fst (GetPending s)) r
          = (if Status r = Pending then count_list (rows s) r else 0))
   \<and> (closed s \<longrightarrow>
        snd (GetFailed s) = Some ClosedStore \<and> snd (GetPending s) = Some ClosedStore)
   \<and> (\<not> closed s \<and> available s \<longrightarrow>
        filter (\<lambda>r. Key r = Key t) (fst (GetFailed (snd (MarkFailed t s))))
          = [t\<lparr>Status := Failed\<rparr>]
      \<and> filter (\<lambda>r. Key r = Key t) (fst (GetPending (snd (MarkFailed t s)))) = []
      \<and> filter (\<lambda>r. Key r = Key t) (fst (GetPending (snd (MarkPending t s))))
          = [t\<lparr>Status := Pending\<rparr>]
      \<and> filter (\<lambda>r. Key r = Key t) (fst (GetFailed (snd (MarkPending t s)))) = []
      \<and> filter (\<lambda>r. Key r = Key t) (fst (GetPending (snd (MarkDone t s)))) = []
      \<and> filter (\<lambda>r. Key r = Key t) (fst (GetFailed (snd (MarkDone t s)))) = [])"
proof -
  have sigs: "lookup_method Store ''GetFailed'' =
       Some \<lparr>mname = ''GetFailed'', params = [], results = [TySlice TyTask, TyError]\<rparr>
     \<and> lookup_method Store ''GetPending'' =
       Some \<lparr>mname = ''GetPending'', params = [], results = [TySlice TyTask, TyError]\<rparr>
     \<and> (implements ms Store \<longrightarrow>
        \<lparr>mname = ''GetFailed'', params = [], results = [TySlice TyTask, TyError]\<rparr> \<in> set ms
      \<and> \<lparr>mname = ''GetPending'', params = [], results = [TySlice TyTask, TyError]\<rparr> \<in> set ms)"
    by (simp add: lookup_method_def implements_def Store_def)
  have reads: "\<not> closed s \<longrightarrow>
        snd (GetFailed s) = None \<and> snd (GetPending s) = None
      \<and> count_list (fst (GetFailed s)) r
          = (if Status r = Failed then count_list (rows s) r else 0)
      \<and> count_list (fst (GetPending s)) r
          = (if Status r = Pending then count_list (rows s) r else 0)"
    by (simp add: GetFailed_def GetPending_def count_list_filter)
  have shut: "closed s \<longrightarrow>
      snd (GetFailed s) = Some ClosedStore \<and> snd (GetPending s) = Some ClosedStore"
    by (simp add: GetFailed_def GetPending_def)
  from sigs reads shut reads_after_writes [of s t] show ?thesis
    by blast
qed

theorem Store_reads_snapshot_and_error_witness:
  "implements Store Store
   \<and> \<lparr>mname = ''GetFailed'', params = [], results = [TySlice TyTask, TyError]\<rparr> \<in> set Store
   \<and> \<not> closed demo_store \<and> available demo_store
   \<and> GetFailed demo_store = ([blob_B], None)
   \<and> GetPending demo_store = ([blob_A], None)
   \<and> count_list (fst (GetFailed demo_store)) blob_B = 1
   \<and> count_list (fst (GetFailed demo_store)) blob_A = 0
   \<and> filter (\<lambda>r. Key r = Key blob_A) (fst (GetFailed (snd (MarkFailed blob_A demo_store))))
       = [blob_A\<lparr>Status := Failed\<rparr>]
   \<and> closed (snd (Close demo_store))
   \<and> snd (GetFailed (snd (Close demo_store))) = Some ClosedStore"
proof -
  have impl: "implements Store Store"
    by (simp add: implements_def Store_def)
  have opn: "\<not> closed demo_store" "available demo_store" "closed (snd (Close demo_store))"
    by (simp_all add: demo_store_def Close_def)
  have held: "count_list (rows demo_store) blob_B = 1" "count_list (rows demo_store) blob_A = 1"
    "Status blob_B = Failed" "Status blob_A = Pending"
    by (simp_all add: demo_store_def blob_A_def blob_B_def)
  have snapshot: "GetFailed demo_store = ([blob_B], None)"
    "GetPending demo_store = ([blob_A], None)"
    by (simp_all add: GetFailed_def GetPending_def demo_store_def blob_A_def blob_B_def)
  from Store_reads_snapshot_and_error [where ms = Store and s = demo_store and r = blob_B
      and t = blob_A] impl opn
  have one: "\<lparr>mname = ''GetFailed'', params = [], results = [TySlice TyTask, TyError]\<rparr>
        \<in> set Store
      \<and> count_list (fst (GetFailed demo_store)) blob_B
          = (if Status blob_B = Failed then count_list (rows demo_store) blob_B else 0)
      \<and> filter (\<lambda>r. Key r = Key blob_A) (fst (GetFailed (snd (MarkFailed blob_A demo_store))))
          = [blob_A\<lparr>Status := Failed\<rparr>]"
    by blast
  from Store_reads_snapshot_and_error [where ms = Store and s = demo_store and r = blob_A
      and t = blob_A] opn
  have two: "count_list (fst (GetFailed demo_store)) blob_A
      = (if Status blob_A = Failed then count_list (rows demo_store) blob_A else 0)"
    by blast
  from Store_reads_snapshot_and_error [where ms = Store and s = "snd (Close demo_store)"
      and r = blob_A and t = blob_A] opn
  have three: "snd (GetFailed (snd (Close demo_store))) = Some ClosedStore"
    by blast
  from impl opn held snapshot one two three show ?thesis
    by simp
qed

text \<open>
  C5 (the claim as stated fails): the claim says \<open>MarkDone\<close> returns success for every
  Store in which the task's key is absent. A closed store holds no record for the key,
  and \<open>MarkDone\<close> returns the closed-store error.
\<close>

theorem MarkDone_closed_store_counterexample:
  "records_for (Key blob_A) (snd (Close empty_store)) = 0
   \<and> fst (MarkDone blob_A (snd (Close empty_store))) = Some ClosedStore"
  by (simp add: records_for_def Close_def MarkDone_def write_guard_def empty_store_def)

text \<open>
  C5 (amended): on a Store that is open and whose backing store is available,
  \<open>MarkDone\<close> for a key that is absent returns success and leaves the Store as it is.
  \<open>MarkPending\<close> returns success and upserts: afterwards the Store holds exactly one
  record for the key, the task passed in with status Pending, which \<open>GetPending\<close>
  returns and \<open>GetFailed\<close> does not; the records of the other keys are untouched. So on
  an already-Pending key it creates no duplicate (a Store that held one record for the
  key holds as many records as before), and calling it again changes nothing.
\<close>

theorem Store_writes_idempotent:
  "\<not> closed s \<Longrightarrow> available s \<Longrightarrow>
     (records_for (Key t) s = 0 \<longrightarrow> MarkDone t s = (None, s))
   \<and> fst (MarkPending t s) = None
   \<and> filter (\<lambda>r. Key r = Key t) (rows (snd (MarkPending t s))) = [t\<lparr>Status := Pending\<rparr>]
   \<and> filter (\<lambda>r. Key r \<noteq> Key t) (rows (snd (MarkPending t s)))
       = filter (\<lambda>r. Key r \<noteq> Key t) (rows s)
   \<and> filter (\<lambda>r. Key r = Key t) (fst (GetPending (snd (MarkPending t s))))
       = [t\<lparr>Status := Pending\<rparr>]
   \<and> filter (\<lambda>r. Key r = Key t) (fst (GetFailed (snd (MarkPending t s)))) = []
   \<and> records_for (Key t) (snd (MarkPending t s)) = 1
   \<and> (records_for (Key t) s = 1 \<longrightarrow>
        length (rows (snd (MarkPending t s))) = length (rows s))
   \<and> MarkPending t (snd (MarkPending t s)) = (None, snd (MarkPending t s))"
proof -
  assume opn: "\<not> closed s" "available s"
  note pending = open_store_writes(1) [OF opn, of t]
  have absent: "records_for (Key t) s = 0 \<longrightarrow> MarkDone t s = (None, s)"
    by (simp add: open_store_writes(3) [OF opn] records_for_def filter_other_keys)
  have kept: "filter (\<lambda>r. Key r = Key t) (rows (snd (MarkPending t s)))
      = [t\<lparr>Status := Pending\<rparr>]"
    using filter_key_upsert [of "t\<lparr>Status := Pending\<rparr>" "rows s"]
    by (simp add: pending)
  have others: "filter (\<lambda>r. Key r \<noteq> Key t) (rows (snd (MarkPending t s)))
      = filter (\<lambda>r. Key r \<noteq> Key t) (rows s)"
    using filter_other_upsert [of "t\<lparr>Status := Pending\<rparr>" "rows s"]
    by (simp add: pending)
  have one: "records_for (Key t) (snd (MarkPending t s)) = 1"
    by (simp add: records_for_def kept)
  have same: "records_for (Key t) s = 1 \<longrightarrow>
      length (rows (snd (MarkPending t s))) = length (rows s)"
    using length_upsert [of "t\<lparr>Status := Pending\<rparr>" "rows s"]
    by (simp add: pending records_for_def)
  have again: "MarkPending t (snd (MarkPending t s)) = (None, snd (MarkPending t s))"
    using opn by (simp add: pending MarkPending_def write_guard_def upsert_upsert)
  from absent pending kept others one same again reads_after_writes(3,4) [OF opn, of t]
  show ?thesis
    by simp
qed

theorem Store_writes_idempotent_witness:
  "\<not> closed demo_store \<and> available demo_store
   \<and> Key (blob_A\<lparr>AttemptCount := 2\<rparr>) = ''blob-A''
   \<and> filter (\<lambda>r. Key r = ''blob-A'') (fst (GetPending demo_store)) = [blob_A]
   \<and> records_for ''blob-A'' demo_store = 1
   \<and> rows (snd (MarkPending (blob_A\<lparr>AttemptCount := 2\<rparr>) demo_store))
       = [blob_B, blob_A\<lparr>AttemptCount := 2\<rparr>]
   \<and> length (rows (snd (MarkPending (blob_A\<lparr>AttemptCount := 2\<rparr>) demo_store)))
       = length (rows demo_store)
   \<and> records_for (Key (blob_B\<lparr>Key := ''blob-C''\<rparr>)) demo_store = 0
   \<and> MarkDone (blob_B\<lparr>Key := ''blob-C''\<rparr>) demo_store = (None, demo_store)"
proof -
  have opn: "\<not> closed demo_store" "available demo_store"
    by (simp_all add: demo_store_def)
  have held: "Key (blob_A\<lparr>AttemptCount := 2\<rparr>) = ''blob-A''"
    "filter (\<lambda>r. Key r = ''blob-A'') (fst (GetPending demo_store)) = [blob_A]"
    "records_for ''blob-A'' demo_store = 1"
    "records_for (Key (blob_B\<lparr>Key := ''blob-C''\<rparr>)) demo_store = 0"
    "filter (\<lambda>r. Key r \<noteq> ''blob-A'') (rows demo_store) = [blob_B]"
    by (simp_all add: records_for_def GetPending_def demo_store_def blob_A_def blob_B_def)
  from Store_writes_idempotent [OF opn, where t = "blob_A\<lparr>AttemptCount := 2\<rparr>"] held
  have same: "length (rows (snd (MarkPending (blob_A\<lparr>AttemptCount := 2\<rparr>) demo_store)))
      = length (rows demo_store)"
    by simp
  from Store_writes_idempotent [OF opn, where t = "blob_B\<lparr>Key := ''blob-C''\<rparr>"] held
  have absent: "MarkDone (blob_B\<lparr>Key := ''blob-C''\<rparr>) demo_store = (None, demo_store)"
    by blast
  have stored: "rows (snd (MarkPending (blob_A\<lparr>AttemptCount := 2\<rparr>) demo_store))
      = [blob_B, blob_A\<lparr>AttemptCount := 2\<rparr>]"
    by (simp add: MarkPending_def write_guard_def upsert_def demo_store_def blob_A_def
        blob_B_def)
  from opn held same absent stored show ?thesis
    by simp
qed

subsection \<open>The Store under the Manager\<close>

text \<open>
  C4 (the claim as stated fails): the claim says the Store interface exposes exactly
  four operations. It declares six.
\<close>

theorem Store_four_operations_counterexample:
  "length Store \<noteq> 4"
  by (simp add: Store_def)

text \<open>
  C4 (amended): the Store interface exposes exactly six operations: the two reads
  \<open>GetFailed\<close> and \<open>GetPending\<close>, and the four operations \<open>MarkPending\<close>, \<open>MarkFailed\<close>,
  \<open>MarkDone\<close> and \<open>Close\<close>, which are the ones that return only an \<open>error\<close>. Every
  mutation of the Store occurs through its operations: a step of the Manager leaves
  the Store as it is, or changes it by exactly one \<open>MarkPending\<close>, \<open>MarkFailed\<close> or
  \<open>MarkDone\<close>; a dispatch and the passing of time leave it as it is, and an enqueue is
  one \<open>MarkPending\<close> of the task submitted.
\<close>

theorem Store_six_operations:
  "length Store = 6
   \<and> map mname Store =
       [''GetFailed'', ''GetPending'', ''MarkPending'', ''MarkFailed'', ''MarkDone'', ''Close'']
   \<and> error_only Store = [''MarkPending'', ''MarkFailed'', ''MarkDone'', ''Close'']
   \<and> distinct (map mname Store)
   \<and> (the_store (manager_step cfg m a) = the_store m
      \<or> (\<exists>t. the_store (manager_step cfg m a) = snd (MarkPending t (the_store m)))
      \<or> (\<exists>t. the_store (manager_step cfg m a) = snd (MarkFailed t (the_store m)))
      \<or> (\<exists>t. the_store (manager_step cfg m a) = snd (MarkDone t (the_store m))))
   \<and> the_store (manager_step cfg m (Dispatch t)) = the_store m
   \<and> the_store (manager_step cfg m (Tick d)) = the_store m
   \<and> the_store (manager_step cfg m (Enqueue t)) = snd (MarkPending t (the_store m))"
proof -
  have iface: "length Store = 6
     \<and> map mname Store =
       [''GetFailed'', ''GetPending'', ''MarkPending'', ''MarkFailed'', ''MarkDone'', ''Close'']
     \<and> error_only Store = [''MarkPending'', ''MarkFailed'', ''MarkDone'', ''Close'']
     \<and> distinct (map mname Store)"
    by (simp add: Store_def error_only_def)
  have step: "the_store (manager_step cfg m a) = the_store m
      \<or> (\<exists>t. the_store (manager_step cfg m a) = snd (MarkPending t (the_store m)))
      \<or> (\<exists>t. the_store (manager_step cfg m a) = snd (MarkFailed t (the_store m)))
      \<or> (\<exists>t. the_store (manager_step cfg m a) = snd (MarkDone t (the_store m)))"
  proof (cases a)
    case (Finish k r)
    then show ?thesis
      by (cases r; cases "find (\<lambda>t. Key t = k) (in_flight m)") (auto simp add: finish_def)
  qed auto
  from iface step show ?thesis
    by simp
qed

subsection \<open>Mutual exclusion per key\<close>

lemma in_flight_finish: "in_flight (finish t r m) = in_flight m"
  by (cases r) (simp_all add: finish_def)

lemma distinct_keys_step:
  "distinct (map Key (in_flight m)) \<Longrightarrow> distinct (map Key (in_flight (manager_step cfg m a)))"
  by (cases a) (auto simp add: in_flight_finish distinct_map_filter split: option.splits)

lemma distinct_keys_steps:
  "distinct (map Key (in_flight m)) \<Longrightarrow>
   distinct (map Key (in_flight (foldl (manager_step cfg) m acts)))"
  by (induction acts arbitrary: m) (simp_all add: distinct_keys_step)

lemma distinct_keys_at_most_one:
  "distinct (map Key ts) \<Longrightarrow> length (filter (\<lambda>t. Key t = k) ts) \<le> 1"
  by (induction ts) (auto simp add: filter_empty_conv image_iff)

lemma pool_bound_step:
  "length (in_flight m) \<le> pool_size cfg \<Longrightarrow>
   length (in_flight (manager_step cfg m a)) \<le> pool_size cfg"
  by (cases a) (auto simp add: in_flight_finish split: option.splits
      intro: le_trans [OF length_filter_le])

text \<open>A run in which the second dispatch of a key in flight is skipped.\<close>

lemma manager_skips_key_in_flight:
  "map Key (in_flight (run_manager \<lparr>pool_size = 4, backoff = (\<lambda>n. 2 ^ n), max_attempts = 5\<rparr>
      empty_store [Enqueue blob_A, Dispatch blob_A, Dispatch blob_A])) = [''blob-A'']"
  by (simp add: run_manager_def start_def due_def GetPending_def GetFailed_def MarkPending_def
      write_guard_def upsert_def empty_store_def blob_A_def)

text \<open>
  C6: mutual exclusion per key. In every state a Manager started on any Store reaches,
  by any sequence of steps, at most one \<open>Exec\<close> call is active for any key.
\<close>

theorem Exec_mutual_exclusion:
  "active_execs k (run_manager cfg st acts) \<le> 1"
proof -
  have "distinct (map Key (in_flight (start st)))"
    by (simp add: start_def)
  then have "distinct (map Key (in_flight (run_manager cfg st acts)))"
    unfolding run_manager_def by (rule distinct_keys_steps)
  then show ?thesis
    unfolding active_execs_def by (rule distinct_keys_at_most_one)
qed

end
